theory Spec2Isabelle
  imports Complex_Main
begin

section \<open>Python floats\<close>

text \<open>
  The openness level \<open>_state\<close> is a Python float. The animator only assigns float
  literals to it and compares it with float literals, so a float is modelled by the exact
  value it denotes: a finite double is the real number it stands for, and the three special
  values are constructors of their own. Every double is a \<open>Finite\<close> value (the converse is
  not needed: what is proved for all reals holds for the doubles among them).
\<close>

datatype pyfloat = Finite real | PosInf | NegInf | NaN

text \<open>Python's \<open>>=\<close>, \<open><=\<close> and \<open><\<close> on floats: every comparison with NaN is False.\<close>

fun float_ge :: "pyfloat \<Rightarrow> pyfloat \<Rightarrow> bool" where
  "float_ge NaN _ = False"
| "float_ge _ NaN = False"
| "float_ge PosInf _ = True"
| "float_ge _ NegInf = True"
| "float_ge NegInf _ = False"
| "float_ge _ PosInf = False"
| "float_ge (Finite x) (Finite y) = (x \<ge> y)"

definition float_le :: "pyfloat \<Rightarrow> pyfloat \<Rightarrow> bool" where
  "float_le x y = float_ge y x"

fun float_lt :: "pyfloat \<Rightarrow> pyfloat \<Rightarrow> bool" where
  "float_lt NaN _ = False"
| "float_lt _ NaN = False"
| "float_lt PosInf _ = False"
| "float_lt _ NegInf = False"
| "float_lt NegInf _ = True"
| "float_lt _ PosInf = True"
| "float_lt (Finite x) (Finite y) = (x < y)"

text \<open>
  The float literals of the source, each the double nearest to the decimal written there
  (mantissa over a power of two): \<open>0.0\<close>, \<open>0.2\<close>, \<open>0.33\<close>, \<open>0.5\<close>, \<open>0.66\<close>,
  \<open>0.8\<close> and \<open>1.0\<close>.
\<close>

definition lit_0_0 :: pyfloat where "lit_0_0 = Finite 0"
definition lit_0_2 :: pyfloat where "lit_0_2 = Finite (3602879701896397 / 18014398509481984)"
definition lit_0_33 :: pyfloat where "lit_0_33 = Finite (5944751508129055 / 18014398509481984)"
definition lit_0_5 :: pyfloat where "lit_0_5 = Finite (1 / 2)"
definition lit_0_66 :: pyfloat where "lit_0_66 = Finite (5944751508129055 / 9007199254740992)"
definition lit_0_8 :: pyfloat where "lit_0_8 = Finite (3602879701896397 / 4503599627370496)"
definition lit_1_0 :: pyfloat where "lit_1_0 = Finite 1"

section \<open>The frame renderer\<close>

definition bslash :: char where "bslash = CHR 0x5C"

definition EYE_OPEN :: "string list" where
  "EYE_OPEN =
    [''   _____       _____   '',
     ''  /     '' @ [bslash] @ ''_____/     '' @ [bslash] @ ''  '',
     '' /                   '' @ [bslash] @ '' '',
     ''|   O           O     |'',
     '' '' @ [bslash] @ ''                   / '',
     ''  '' @ [bslash] @ ''_____     _____/   '',
     ''        '' @ [bslash] @ ''___/         '']"

definition EYE_HALF :: "string list" where
  "EYE_HALF =
    [''   _____       _____   '',
     ''  /     '' @ [bslash] @ ''_____/     '' @ [bslash] @ ''  '',
     '' /                   '' @ [bslash] @ '' '',
     ''|   -           -     |'',
     '' '' @ [bslash] @ ''                   / '',
     ''  '' @ [bslash] @ ''_____     _____/   '',
     ''        '' @ [bslash] @ ''___/         '']"

definition EYE_CLOSED :: "string list" where
  "EYE_CLOSED =
    [''   _____       _____   '',
     ''  /     '' @ [bslash] @ ''_____/     '' @ [bslash] @ ''  '',
     '' /                   '' @ [bslash] @ '' '',
     ''|   -------------     |'',
     '' '' @ [bslash] @ ''                   / '',
     ''  '' @ [bslash] @ ''_____     _____/   '',
     ''        '' @ [bslash] @ ''___/         '']"

definition FACE_PADDING :: string where
  "FACE_PADDING = replicate 6 CHR '' ''"

text \<open>\<open>sep.join(lines)\<close> of Python.\<close>

fun join :: "string \<Rightarrow> string list \<Rightarrow> string" where
  "join sep [] = []"
| "join sep [l] = l"
| "join sep (l # ls) = l @ sep @ join sep ls"

text \<open>
  The body of \<open>_draw\<close> after the art is chosen: each line of the art twice, side by side,
  behind the left margin, the lines joined by newlines.
\<close>

definition assemble :: "string list \<Rightarrow> string" where
  "assemble art = join [CHR 0x0A] (map (\<lambda>l. FACE_PADDING @ l @ ''   '' @ l) art)"

definition draw :: "pyfloat \<Rightarrow> string" where
  "draw level =
     (let art = (if float_ge level lit_0_66 then EYE_OPEN
                 else if float_ge level lit_0_33 then EYE_HALF
                 else EYE_CLOSED)
      in assemble art)"

section \<open>The animator\<close>

text \<open>
  \<open>EyeAnimator\<close>: the three \<open>threading.Event\<close> flags \<open>_stop\<close>, \<open>_blink\<close> and
  \<open>_auto\<close>, each a boolean that is set, cleared and tested atomically, and the openness
  \<open>_state\<close>. The lock and the thread are not data of the model: taking and releasing the
  lock are events of the trace below.
\<close>

record animator =
  ev_stop :: bool
  ev_blink :: bool
  ev_auto :: bool
  state :: pyfloat

text \<open>\<open>__init__\<close>: auto-blink enabled, nothing requested, eyes open.\<close>

definition init :: animator where
  "init = \<lparr>ev_stop = False, ev_blink = False, ev_auto = True, state = lit_1_0\<rparr>"

text \<open>
  What a thread does, in order. \<open>DoBlink\<close> marks a call of \<open>_do_blink\<close> with the call
  site it comes from: the auto-blink branch of \<open>_run\<close> or its forced-blink branch.
\<close>

datatype blink_site = Auto | Forced

datatype event =
    LockAcquire
  | LockRelease
  | StateWrite pyfloat
  | StateRead pyfloat
  | StdoutWrite string
  | StdoutFlush
  | Print string
  | Sleep real
  | BlinkClear
  | DoBlink blink_site
  | ThreadJoin real
  | SaveMemory

fun state_writes :: "event list \<Rightarrow> pyfloat list" where
  "state_writes [] = []"
| "state_writes (StateWrite v # evs) = v # state_writes evs"
| "state_writes (_ # evs) = state_writes evs"

fun blink_calls :: "event list \<Rightarrow> blink_site list" where
  "blink_calls [] = []"
| "blink_calls (DoBlink s # evs) = s # blink_calls evs"
| "blink_calls (_ # evs) = blink_calls evs"

subsection \<open>The public operations\<close>

text \<open>
  \<open>stop\<close> sets the stop flag and joins the thread with a timeout of one second;
  \<open>trigger_blink\<close> sets the forced-blink flag; \<open>set_auto\<close> sets or clears the gate.
\<close>

definition stop :: "animator \<Rightarrow> animator \<times> event list" where
  "stop a = (a\<lparr>ev_stop := True\<rparr>, [ThreadJoin 1])"

definition trigger_blink :: "animator \<Rightarrow> animator" where
  "trigger_blink a = a\<lparr>ev_blink := True\<rparr>"

definition set_auto :: "bool \<Rightarrow> animator \<Rightarrow> animator" where
  "set_auto enabled a = (if enabled then a\<lparr>ev_auto := True\<rparr> else a\<lparr>ev_auto := False\<rparr>)"

text \<open>
  The operations as the other thread calls them while the loop runs. Of \<open>stop\<close> the loop
  sees the flag only.
\<close>

datatype host_op = HStop | HTriggerBlink | HSetAuto bool

fun apply_host :: "host_op \<Rightarrow> animator \<Rightarrow> animator" where
  "apply_host HStop a = fst (stop a)"
| "apply_host HTriggerBlink a = trigger_blink a"
| "apply_host (HSetAuto enabled) a = set_auto enabled a"

definition apply_hosts :: "host_op list \<Rightarrow> animator \<Rightarrow> animator" where
  "apply_hosts ops a = fold apply_host ops a"

subsection \<open>The blink sequence\<close>

definition steps :: "pyfloat list" where
  "steps = [lit_0_8, lit_0_5, lit_0_2, lit_0_0]"

text \<open>
  One of the two \<open>for s in ...\<close> loops of \<open>_do_blink\<close>: under the lock, store \<open>s\<close>;
  then sleep 0.04 seconds. Durations and times are real numbers in this model: the
  rounding of float sums is left out, no property below depends on it.
\<close>

fun set_steps :: "pyfloat list \<Rightarrow> animator \<Rightarrow> animator \<times> event list" where
  "set_steps [] a = (a, [])"
| "set_steps (s # ss) a =
     (let (a', evs) = set_steps ss (a\<lparr>state := s\<rparr>)
      in (a', [LockAcquire, StateWrite s, LockRelease, Sleep 0.04] @ evs))"

text \<open>
  \<open>_do_blink\<close>; \<open>u\<close> is the value drawn by \<open>random.uniform(0.0, 0.12)\<close> for the closed
  pause.
\<close>

definition do_blink :: "real \<Rightarrow> animator \<Rightarrow> animator \<times> event list" where
  "do_blink u a =
     (let (a1, closing) = set_steps steps a;
          (a2, opening) = set_steps (rev steps) a1
      in (a2\<lparr>state := lit_1_0\<rparr>,
          closing @ [Sleep (0.08 + u)] @ opening
            @ [LockAcquire, StateWrite lit_1_0, LockRelease]))"

subsection \<open>The animation loop\<close>

definition EYES_REFRESH :: real where "EYES_REFRESH = 0.12"

definition SCREEN_CLEAR :: string where
  "SCREEN_CLEAR = [CHR 0x1B] @ ''[2J'' @ [CHR 0x1B] @ ''[H''"

text \<open>The \<open>with self._lock:\<close> block of \<open>_run\<close>.\<close>

definition redraw :: "animator \<Rightarrow> event list" where
  "redraw a =
     [LockAcquire, StateRead (state a), StdoutWrite SCREEN_CLEAR,
      StdoutWrite (draw (state a) @ [CHR 0x0A, CHR 0x0A]), StdoutFlush, LockRelease]"

text \<open>
  What one iteration of the loop takes from outside: the clock reading \<open>now\<close>, the values
  drawn by \<open>random.uniform(2.0, 5.5)\<close> and by the closed pauses of the two possible blinks,
  and the operations the other thread performs meanwhile, by the place where they fall:
  between the test of \<open>_stop\<close> and the test of \<open>_auto\<close>; from there to the test of
  \<open>_blink\<close> (the auto blink, if any, included); between the test of \<open>_blink\<close> and its
  \<open>clear()\<close>; from there to the next test of \<open>_stop\<close>. When \<open>_blink\<close> is found unset there
  is no \<open>clear()\<close>, and the third group falls together with the fourth.
\<close>

record tick_env =
  now :: real
  delay :: real
  pause_auto :: real
  pause_forced :: real
  host_before_auto :: "host_op list"
  host_before_check :: "host_op list"
  host_before_clear :: "host_op list"
  host_rest :: "host_op list"

record loop_state =
  anim :: animator
  last_auto_blink :: real

text \<open>
  The first \<open>if\<close> of the loop body, the auto-blink branch: given the deadline
  \<open>last_auto_blink\<close>, it returns the animator, the deadline and the events.
\<close>

definition auto_branch :: "tick_env \<Rightarrow> real \<Rightarrow> animator \<Rightarrow> animator \<times> real \<times> event list" where
  "auto_branch e lab a =
     (if ev_auto a \<and> now e \<ge> lab
      then (let (a', evs) = do_blink (pause_auto e) a
            in (a', now e + delay e, DoBlink Auto # evs))
      else (a, lab, []))"

text \<open>
  The second \<open>if\<close> of the loop body, the forced-blink branch. It is not an \<open>else\<close> of
  the first: it is entered whenever \<open>_blink\<close> is found set.
\<close>

definition forced_branch :: "tick_env \<Rightarrow> animator \<Rightarrow> animator \<times> event list" where
  "forced_branch e a =
     (if ev_blink a
      then (let a' = apply_hosts (host_before_clear e) a;
                (a'', evs) = do_blink (pause_forced e) (a'\<lparr>ev_blink := False\<rparr>)
            in (a'', BlinkClear # DoBlink Forced # evs))
      else (apply_hosts (host_before_clear e) a, []))"

text \<open>The body of the \<open>while\<close> loop of \<open>_run\<close>.\<close>

definition run_body :: "tick_env \<Rightarrow> loop_state \<Rightarrow> loop_state \<times> event list" where
  "run_body e ls =
     (let a1 = apply_hosts (host_before_auto e) (anim ls);
          (a2, lab, evs_auto) = auto_branch e (last_auto_blink ls) a1;
          a3 = apply_hosts (host_before_check e) a2;
          (a4, evs_forced) = forced_branch e a3;
          a5 = apply_hosts (host_rest e) a4
      in (\<lparr>anim = a5, last_auto_blink = lab\<rparr>,
          evs_auto @ evs_forced @ redraw a4 @ [Sleep EYES_REFRESH]))"

text \<open>
  The loop, over the iterations observed: it ends when \<open>_stop\<close> is found set, and the
  observation ends with the list.
\<close>

fun run_loop :: "tick_env list \<Rightarrow> loop_state \<Rightarrow> loop_state \<times> event list" where
  "run_loop [] ls = (ls, [])"
| "run_loop (e # es) ls =
     (if ev_stop (anim ls) then (ls, [])
      else (let (ls', evs) = run_body e ls;
                (ls'', evs') = run_loop es ls'
            in (ls'', evs @ evs')))"

text \<open>
  \<open>_run\<close>: \<open>t0\<close> is the clock at the start, \<open>u0\<close> the value drawn by
  \<open>random.uniform(0.5, 2.5)\<close>.
\<close>

definition run :: "real \<Rightarrow> real \<Rightarrow> tick_env list \<Rightarrow> animator \<Rightarrow> loop_state \<times> event list" where
  "run t0 u0 es a = run_loop es \<lparr>anim = a, last_auto_blink = t0 + u0\<rparr>"

subsection \<open>Notions the properties are stated with\<close>

text \<open>Python's \<open>0.0 <= v <= 1.0\<close>.\<close>

definition in_unit :: "pyfloat \<Rightarrow> bool" where
  "in_unit v = (float_le lit_0_0 v \<and> float_le v lit_1_0)"

text \<open>All the operations of the other thread that fall into one iteration.\<close>

definition hosts_of :: "tick_env \<Rightarrow> host_op list" where
  "hosts_of e = host_before_auto e @ host_before_check e @ host_before_clear e @ host_rest e"

text \<open>
  The two tests of an iteration, as the loop finds them: \<open>auto_due\<close> is the condition of
  the auto-blink branch, \<open>forced_due\<close> the condition of the forced-blink branch (the flag
  \<open>_blink\<close> at the moment it is tested).
\<close>

definition auto_due :: "tick_env \<Rightarrow> loop_state \<Rightarrow> bool" where
  "auto_due e ls =
     (ev_auto (apply_hosts (host_before_auto e) (anim ls)) \<and> now e \<ge> last_auto_blink ls)"

definition forced_due :: "tick_env \<Rightarrow> loop_state \<Rightarrow> bool" where
  "forced_due e ls =
     ev_blink (apply_hosts (host_before_auto e @ host_before_check e) (anim ls))"

text \<open>
  Concrete inputs: an iteration at clock 1 during which the other thread does nothing, a
  loop state whose deadline 0 has passed, and one whose deadline 10 has not.
\<close>

definition calm_tick :: tick_env where
  "calm_tick =
     \<lparr>now = 1, delay = 3, pause_auto = 0.1, pause_forced = 0.05,
      host_before_auto = [], host_before_check = [], host_before_clear = [],
      host_rest = []\<rparr>"

definition overdue :: "animator \<Rightarrow> loop_state" where
  "overdue a = \<lparr>anim = a, last_auto_blink = 0\<rparr>"

definition not_yet_due :: "animator \<Rightarrow> loop_state" where
  "not_yet_due a = \<lparr>anim = a, last_auto_blink = 10\<rparr>"

section \<open>The host session loop\<close>

text \<open>
  What \<open>sys.stdin.readline()\<close> does in one iteration of \<open>main_loop\<close>: it returns a
  string (the empty string at end of input) or is interrupted by \<open>KeyboardInterrupt\<close>.
  Once the list of reads is used up the input is at its end, and \<open>readline\<close> returns the
  empty string.
\<close>

datatype read_result = ReadLine string | ReadInterrupt

text \<open>
  What a call of \<open>handle_command\<close> does, as \<open>main_loop\<close> sees it: it returns a string or
  \<open>None\<close>, or raises \<open>SystemExit\<close>, or an \<open>Exception\<close> (with its message), or another
  \<open>BaseException\<close>, which no handler of \<open>main_loop\<close> catches. The dispatcher itself is a
  parameter of the loop; it may call \<open>trigger_blink\<close> and \<open>set_auto\<close>, so it also returns
  the animator.
\<close>

datatype cmd_result =
    Returned "string option"
  | RaisedSystemExit
  | RaisedException string
  | RaisedOther

type_synonym dispatcher = "string \<Rightarrow> animator \<Rightarrow> cmd_result \<times> animator"

text \<open>How the \<open>while True\<close> loop is left.\<close>

datatype loop_exit = AtEOF | AtExit | Propagated

text \<open>\<open>line.rstrip("\n")\<close>.\<close>

definition rstrip_newlines :: "string \<Rightarrow> string" where
  "rstrip_newlines s = rev (dropWhile (\<lambda>c. c = CHR 0x0A) (rev s))"

definition prompt :: "event list" where
  "prompt = [LockAcquire, StdoutWrite ''>>> '', StdoutFlush, LockRelease]"

text \<open>The end of an iteration, once \<open>res\<close> is known.\<close>

fun respond :: "string option \<Rightarrow> event list" where
  "respond None = [LockAcquire, StdoutWrite SCREEN_CLEAR, StdoutFlush, LockRelease]"
| "respond (Some res) = (if res \<noteq> [] then [LockAcquire, Print res, LockRelease] else [])"

fun main_while :: "dispatcher \<Rightarrow> read_result list \<Rightarrow> animator \<Rightarrow> loop_exit \<times> animator \<times> event list" where
  "main_while handle_command [] a = (AtEOF, a, prompt @ [Print []])"
| "main_while handle_command (ReadInterrupt # rs) a =
     (let (x, a', evs) = main_while handle_command rs a
      in (x, a', prompt @ [Print []] @ evs))"
| "main_while handle_command (ReadLine line # rs) a =
     (if line = [] then (AtEOF, a, prompt @ [Print []])
      else (case handle_command (rstrip_newlines line) a of
              (RaisedSystemExit, a1) \<Rightarrow> (AtExit, a1, prompt)
            | (RaisedOther, a1) \<Rightarrow> (Propagated, a1, prompt)
            | (RaisedException msg, a1) \<Rightarrow>
                (let (x, a', evs) = main_while handle_command rs a1
                 in (x, a', prompt @ respond (Some (''Error handling command: '' @ msg)) @ evs))
            | (Returned res, a1) \<Rightarrow>
                (let (x, a', evs) = main_while handle_command rs a1
                 in (x, a', prompt @ respond res @ evs))))"

text \<open>The farewell line; its dash is written as the three bytes of its UTF-8 encoding.\<close>

definition goodbye :: string where
  "goodbye = [CHR 0x0A] @ ''Goodbye '' @ [CHR 0xE2, CHR 0x80, CHR 0x94] @ '' memory saved.''"

text \<open>
  \<open>main_loop\<close>: the loop, then the \<open>finally\<close> block, which runs however the loop was left.
  The function returns normally unless an exception propagates.
\<close>

definition main_loop :: "dispatcher \<Rightarrow> read_result list \<Rightarrow> animator \<Rightarrow> loop_exit \<times> animator \<times> event list" where
  "main_loop handle_command rs a =
     (let (x, a1, evs) = main_while handle_command rs a;
          (a2, evs_stop) = stop a1
      in (x, a2, evs @ evs_stop @ [Print goodbye, SaveMemory]))"

definition returns_normally :: "loop_exit \<Rightarrow> bool" where
  "returns_normally x = (x \<noteq> Propagated)"

text \<open>A dispatcher that answers every line with the line itself, for concrete runs.\<close>

definition echo :: dispatcher where
  "echo line a = (Returned (Some line), a)"

section \<open>Properties\<close>

subsection \<open>The renderer and the blink sequence\<close>

lemmas lit_defs = lit_0_0_def lit_0_2_def lit_0_33_def lit_0_5_def lit_0_66_def lit_0_8_def lit_1_0_def

lemma float_lt_not_ge: "float_lt x y \<Longrightarrow> \<not> float_ge x y"
  by (cases x; cases y) auto

lemma float_lt_033_not_ge_066: "float_lt x lit_0_33 \<Longrightarrow> \<not> float_ge x lit_0_66"
  by (cases x) (auto simp: lit_defs)

lemma assemble_distinct:
  "assemble EYE_OPEN \<noteq> assemble EYE_HALF"
  "assemble EYE_OPEN \<noteq> assemble EYE_CLOSED"
  "assemble EYE_HALF \<noteq> assemble EYE_CLOSED"
  by (simp_all add: assemble_def EYE_OPEN_def EYE_HALF_def EYE_CLOSED_def FACE_PADDING_def)

text \<open>
  Claim C1. For every float \<open>level\<close>, \<open>_draw\<close> renders the open art when
  \<open>level >= 0.66\<close>, the half art when \<open>0.33 <= level < 0.66\<close> and the closed art when
  \<open>level < 0.33\<close>; at the boundary values 0.66 and 0.33 themselves it renders the more
  open of the two tiers. The three renderings are pairwise different, so the tier can be
  read off the frame.
\<close>

theorem draw_tiers:
  "(float_ge level lit_0_66 \<longrightarrow> draw level = assemble EYE_OPEN) \<and>
   (float_le lit_0_33 level \<and> float_lt level lit_0_66 \<longrightarrow> draw level = assemble EYE_HALF) \<and>
   (float_lt level lit_0_33 \<longrightarrow> draw level = assemble EYE_CLOSED) \<and>
   draw lit_0_66 = assemble EYE_OPEN \<and>
   draw lit_0_33 = assemble EYE_HALF \<and>
   distinct [assemble EYE_OPEN, assemble EYE_HALF, assemble EYE_CLOSED]"
proof -
  have open_tier: "float_ge level lit_0_66 \<longrightarrow> draw level = assemble EYE_OPEN"
    by (simp add: draw_def)
  have half_tier: "float_le lit_0_33 level \<and> float_lt level lit_0_66 \<longrightarrow> draw level = assemble EYE_HALF"
    by (auto simp: draw_def float_le_def dest: float_lt_not_ge)
  have closed_tier: "float_lt level lit_0_33 \<longrightarrow> draw level = assemble EYE_CLOSED"
    by (auto simp: draw_def dest: float_lt_not_ge float_lt_033_not_ge_066)
  have b66: "draw lit_0_66 = assemble EYE_OPEN"
    by (simp add: draw_def lit_0_66_def)
  have b33: "draw lit_0_33 = assemble EYE_HALF"
    by (simp add: draw_def lit_0_66_def lit_0_33_def)
  have d: "distinct [assemble EYE_OPEN, assemble EYE_HALF, assemble EYE_CLOSED]"
    using assemble_distinct by simp
  from open_tier half_tier closed_tier b66 b33 d show ?thesis by blast
qed

theorem draw_tiers_witness:
  "float_ge lit_0_8 lit_0_66 \<and> draw lit_0_8 = assemble EYE_OPEN \<and>
   float_le lit_0_33 lit_0_5 \<and> float_lt lit_0_5 lit_0_66 \<and> draw lit_0_5 = assemble EYE_HALF \<and>
   float_lt lit_0_2 lit_0_33 \<and> draw lit_0_2 = assemble EYE_CLOSED"
proof -
  have h1: "float_ge lit_0_8 lit_0_66" by (simp add: lit_defs)
  have h2: "float_le lit_0_33 lit_0_5 \<and> float_lt lit_0_5 lit_0_66" by (simp add: lit_defs float_le_def)
  have h3: "float_lt lit_0_2 lit_0_33" by (simp add: lit_defs)
  from h1 h2 h3 draw_tiers [of lit_0_8] draw_tiers [of lit_0_5] draw_tiers [of lit_0_2]
  show ?thesis by blast
qed

lemma set_steps_state_writes: "state_writes (snd (set_steps ss a)) = ss"
  by (induction ss arbitrary: a) (simp_all add: case_prod_beta)

lemma set_steps_blink_calls: "blink_calls (snd (set_steps ss a)) = []"
  by (induction ss arbitrary: a) (simp_all add: case_prod_beta)

lemma state_writes_append: "state_writes (xs @ ys) = state_writes xs @ state_writes ys"
  by (induction xs rule: state_writes.induct) auto

lemma blink_calls_append: "blink_calls (xs @ ys) = blink_calls xs @ blink_calls ys"
  by (induction xs rule: blink_calls.induct) auto

lemma do_blink_state_writes: "state_writes (snd (do_blink u a)) = steps @ rev steps @ [lit_1_0]"
  using set_steps_state_writes [of steps a] set_steps_state_writes [of "rev steps" "fst (set_steps steps a)"]
  by (simp add: do_blink_def state_writes_append case_prod_beta)

lemma do_blink_blink_calls: "blink_calls (snd (do_blink u a)) = []"
  using set_steps_blink_calls [of steps a] set_steps_blink_calls [of "rev steps" "fst (set_steps steps a)"]
  by (simp add: do_blink_def blink_calls_append case_prod_beta)

lemma do_blink_state: "state (fst (do_blink u a)) = lit_1_0"
  by (simp add: do_blink_def case_prod_beta)

lemma set_steps_flags:
  "ev_stop (fst (set_steps ss a)) = ev_stop a \<and> ev_blink (fst (set_steps ss a)) = ev_blink a \<and>
   ev_auto (fst (set_steps ss a)) = ev_auto a"
  by (induction ss arbitrary: a) (simp_all add: case_prod_beta)

lemma do_blink_flags:
  "ev_stop (fst (do_blink u a)) = ev_stop a \<and> ev_blink (fst (do_blink u a)) = ev_blink a \<and>
   ev_auto (fst (do_blink u a)) = ev_auto a"
  using set_steps_flags [of steps a] set_steps_flags [of "rev steps" "fst (set_steps steps a)"]
  by (simp add: do_blink_def case_prod_beta)

text \<open>
  Claim C2. A blink started with openness 1.0 ends with openness 1.0; the values it writes
  are the closing steps, the same steps in reverse order, and a last write of 1.0; and
  strictly between the start and the end a value below 0.33 is written.
\<close>

theorem do_blink_round_trip:
  assumes "state a = lit_1_0"
  shows "state (fst (do_blink u a)) = lit_1_0 \<and>
         state_writes (snd (do_blink u a)) = steps @ rev steps @ [lit_1_0] \<and>
         (\<exists>i. 0 < i \<and> i < length (state a # state_writes (snd (do_blink u a))) - 1 \<and>
              float_lt ((state a # state_writes (snd (do_blink u a))) ! i) lit_0_33)"
proof -
  let ?vs = "state a # state_writes (snd (do_blink u a))"
  have vs: "?vs = lit_1_0 # steps @ rev steps @ [lit_1_0]"
    using assms by (simp add: do_blink_state_writes)
  have "0 < (4::nat) \<and> 4 < length ?vs - 1 \<and> float_lt (?vs ! 4) lit_0_33"
    unfolding vs by (simp add: steps_def lit_defs)
  then have "\<exists>i. 0 < i \<and> i < length ?vs - 1 \<and> float_lt (?vs ! i) lit_0_33" by blast
  then show ?thesis by (simp add: do_blink_state do_blink_state_writes)
qed

theorem do_blink_round_trip_witness:
  "state init = lit_1_0 \<and> state (fst (do_blink 0 init)) = lit_1_0 \<and>
   state_writes (snd (do_blink 0 init)) = steps @ rev steps @ [lit_1_0]"
proof -
  have h: "state init = lit_1_0" by (simp add: init_def)
  from h do_blink_round_trip [OF h, of 0] show ?thesis by simp
qed

text \<open>
  Claim C10. Whatever the openness before it (any float, NaN and the infinities included),
  a blink leaves the openness exactly 1.0, and 1.0 is the last value it writes.
\<close>

theorem do_blink_restores_open:
  "state (fst (do_blink u a)) = lit_1_0 \<and> last (state_writes (snd (do_blink u a))) = lit_1_0"
  by (simp add: do_blink_state do_blink_state_writes)

end
